theory Spec2Isabelle
  imports Main
begin

section \<open>The \<^verbatim>\<open>create\<close> function of \<^verbatim>\<open>salt.modules.virtualenv_mod\<close>\<close>

text \<open>
  A shallow embedding of \<^verbatim>\<open>src/salt/modules/virtualenv_mod.py\<close>. The module has one
  operation, \<^verbatim>\<open>create\<close>, which validates its keyword arguments, builds the token list
  \<^verbatim>\<open>cmd\<close> by successive \<^verbatim>\<open>cmd.append\<close> calls and hands \<^verbatim>\<open>' '.join(cmd)\<close> to
  \<^verbatim>\<open>__salt__['cmd.run_all']\<close>. Exceptions are values of type \<open>error\<close>; the mutable
  list \<^verbatim>\<open>cmd\<close>, the warnings, the log and the calls of \<^verbatim>\<open>cmd.run_all\<close> are fields of
  an explicit state that is returned also when an exception is raised.
\<close>

subsection \<open>Python string primitives used by the module\<close>

text \<open>\<^verbatim>\<open>str.startswith\<close>, and \<^verbatim>\<open>sub in s\<close> for strings.\<close>

fun starts_with :: "string \<Rightarrow> string \<Rightarrow> bool" where
  "starts_with [] s = True"
| "starts_with (p # ps) [] = False"
| "starts_with (p # ps) (c # cs) = (p = c \<and> starts_with ps cs)"

fun py_in :: "string \<Rightarrow> string \<Rightarrow> bool" where
  "py_in sub [] = (sub = [])"
| "py_in sub (c # cs) = (starts_with sub (c # cs) \<or> py_in sub cs)"

text \<open>\<^verbatim>\<open>s.split(c)\<close> for a one-character separator: never the empty list.\<close>

fun split_char :: "char \<Rightarrow> string \<Rightarrow> string list" where
  "split_char c [] = [[]]"
| "split_char c (x # xs) =
     (if x = c then [] # split_char c xs
      else (case split_char c xs of
              [] \<Rightarrow> [[x]]
            | w # ws \<Rightarrow> (x # w) # ws))"

text \<open>\<^verbatim>\<open>s.split('rc')[0]\<close>: the text before the first occurrence of \<^verbatim>\<open>rc\<close>.\<close>

fun before_rc :: "string \<Rightarrow> string" where
  "before_rc [] = []"
| "before_rc (c # cs) = (if starts_with ''rc'' (c # cs) then [] else c # before_rc cs)"

text \<open>\<^verbatim>\<open>s.strip()\<close>: the bytes space, tab, newline, vertical tab, form feed and
  carriage return are removed at both ends.\<close>

definition is_space :: "char \<Rightarrow> bool" where
  "is_space c = (c = CHR '' '' \<or> c = CHR 0x09 \<or> c = CHR 0x0A \<or> c = CHR 0x0B
                 \<or> c = CHR 0x0C \<or> c = CHR 0x0D)"

definition py_strip :: "string \<Rightarrow> string" where
  "py_strip s = rev (dropWhile is_space (rev (dropWhile is_space s)))"

text \<open>\<^verbatim>\<open>int(s)\<close> on a string, base ten: surrounding whitespace, an optional sign, at
  least one decimal digit. \<open>None\<close> stands for the \<^verbatim>\<open>ValueError\<close>.\<close>

definition is_digit :: "char \<Rightarrow> bool" where
  "is_digit c = (48 \<le> (of_char c :: nat) \<and> (of_char c :: nat) \<le> 57)"

definition digits_val :: "string \<Rightarrow> int" where
  "digits_val ds = foldl (\<lambda>a c. 10 * a + (int (of_char c) - 48)) 0 ds"

definition py_int :: "string \<Rightarrow> int option" where
  "py_int s =
     (let t = py_strip s;
          neg = (t \<noteq> [] \<and> hd t = CHR ''-'');
          ds = (if t \<noteq> [] \<and> (hd t = CHR ''-'' \<or> hd t = CHR ''+'') then tl t else t)
      in if ds \<noteq> [] \<and> list_all is_digit ds
         then Some (if neg then - digits_val ds else digits_val ds)
         else None)"

text \<open>\<^verbatim>\<open>' '.join(cmd)\<close>.\<close>

fun join_sp :: "string list \<Rightarrow> string" where
  "join_sp [] = []"
| "join_sp [x] = x"
| "join_sp (x # y # r) = x @ '' '' @ join_sp (y # r)"

text \<open>Comparison \<^verbatim>\<open>a >= b\<close> of two tuples of integers: the first position where they
  differ decides, and if there is none the longer tuple is the greater.\<close>

fun tuple_ge :: "int list \<Rightarrow> int list \<Rightarrow> bool" where
  "tuple_ge a [] = True"
| "tuple_ge [] (y # ys) = False"
| "tuple_ge (x # xs) (y # ys) = (if x = y then tuple_ge xs ys else y < x)"

subsection \<open>Arguments, collaborators, exceptions and state\<close>

text \<open>The dictionary returned by \<^verbatim>\<open>cmd.run_all\<close>, with the keys the module and its
  callers read.\<close>

record exec_result =
  retcode :: int
  stdout :: string
  stderr :: string

text \<open>\<^verbatim>\<open>extra_search_dir\<close> is either a string (\<^verbatim>\<open>isinstance(_, basestring)\<close>) or a
  sequence of entries that is iterated as it is.\<close>

datatype search_dirs = Str string | Lst "string list"

text \<open>The keyword arguments of \<^verbatim>\<open>create\<close>; \<open>None\<close> is Python's \<^verbatim>\<open>None\<close>.\<close>

record options =
  path :: string
  venv_bin :: "string option"
  no_site_packages :: "bool option"
  system_site_packages :: bool
  distribute :: bool
  clear :: bool
  python :: "string option"
  extra_search_dir :: "search_dirs option"
  never_download :: "bool option"
  prompt :: "string option"
  symlinks :: "bool option"
  upgrade :: "bool option"
  runas :: "string option"

text \<open>What the module reads from outside itself: \<^verbatim>\<open>__opts__.get('venv_bin')\<close> and
  \<^verbatim>\<open>__pillar__.get('venv_bin')\<close>, the lookup of a command on the search path, whether
  \<^verbatim>\<open>import virtualenv\<close> succeeds (then with the module's \<^verbatim>\<open>__version__\<close>), and
  \<^verbatim>\<open>__salt__['cmd.run_all']\<close>.\<close>

record env =
  opts_venv_bin :: "string option"
  pillar_venv_bin :: "string option"
  which :: "string \<Rightarrow> bool"
  virtualenv_version :: "string option"
  run_all :: "string \<Rightarrow> string option \<Rightarrow> exec_result"

text \<open>An argument of \<^verbatim>\<open>str.format\<close> rendered with \<^verbatim>\<open>!r\<close>.\<close>

datatype fmt_arg = Repr_str string | Repr_result exec_result

text \<open>The exceptions that leave \<^verbatim>\<open>create\<close>. A \<^verbatim>\<open>CommandExecutionError\<close> keeps its
  message as the format string of the source and the arguments given to
  \<^verbatim>\<open>format\<close>; a \<^verbatim>\<open>ValueError\<close> keeps the literal that \<^verbatim>\<open>int\<close> refused.\<close>

datatype error =
    CommandNotFoundError "string option"
  | CommandExecutionError string "fmt_arg list"
  | ValueError string

text \<open>The state that \<^verbatim>\<open>create\<close> changes: the list \<^verbatim>\<open>cmd\<close>, the messages given to
  \<^verbatim>\<open>warnings.warn\<close> and to \<^verbatim>\<open>log.info\<close>, and the calls of \<^verbatim>\<open>cmd.run_all\<close>
  (command line and \<^verbatim>\<open>runas\<close>) in the order they are made.\<close>

record state =
  cmd :: "string list"
  warned :: "string list"
  logged :: "string list"
  spawned :: "(string \<times> string option) list"

definition init_state :: state where
  "init_state = \<lparr>cmd = [], warned = [], logged = [], spawned = []\<rparr>"

definition append_tok :: "string \<Rightarrow> state \<Rightarrow> state" where
  "append_tok t s = s\<lparr>cmd := cmd s @ [t]\<rparr>"

definition log_info :: "string \<Rightarrow> state \<Rightarrow> state" where
  "log_info m s = s\<lparr>logged := logged s @ [m]\<rparr>"

definition warn :: "string \<Rightarrow> state \<Rightarrow> state" where
  "warn m s = s\<lparr>warned := warned s @ [m]\<rparr>"

subsection \<open>Messages\<close>

definition deprecation_msg :: string where
  "deprecation_msg = '''no_site_packages' has been deprecated. Please start using 'system_site_packages=False' which means exactly the same as 'no_site_packages=True'' @ [CHR 0x27]"

definition exclusive_msg :: string where
  "exclusive_msg = '''no_site_packages' and 'system_site_packages' are mutually exclusive options. Please use only one, and prefer 'system_site_packages' since 'no_site_packages' has been deprecated.''"

definition upgrade_msg :: string where
  "upgrade_msg = ''The `upgrade`(`--upgrade`) option is not supported by {0!r}''"

definition symlinks_msg :: string where
  "symlinks_msg = ''The `symlinks`(`--symlinks`) option is not supported by {0!r}''"

definition version_msg :: string where
  "version_msg = ''Unable to get the virtualenv version output using {0!r}. Returned data: {1!r}''"

definition distribute_note :: string where
  "distribute_note = ''The virtualenv '--distribute' option has been deprecated in virtualenv(>=1.10), as such, the 'distribute' option to `virtualenv.create()` has also been deprecated and it's not necessary anymore.''"

definition never_download_note :: string where
  "never_download_note = ''The virtualenv '--never-download' option has been deprecated in virtualenv(>=1.10), as such, the 'never_download' option to `virtualenv.create()` has also been deprecated and it's not necessary anymore.''"

definition no_site_packages_msg :: string where
  "no_site_packages_msg = ''The `no_site_packages`(`--no-site-packages`) option is not supported by {0!r}''"

definition python_msg :: string where
  "python_msg = ''The `python`(`--python`) option is not supported by {0!r}''"

definition extra_search_dir_msg :: string where
  "extra_search_dir_msg = ''The `extra_search_dir`(`--extra-search-dir`) option is not supported by {0!r}''"

definition never_download_msg :: string where
  "never_download_msg = ''The `never_download`(`--never-download`) option is not supported by {0!r}''"

definition prompt_msg :: string where
  "prompt_msg = ''The `prompt`(`--prompt`) option is not supported by {0!r}''"

subsection \<open>The binary and its version\<close>

text \<open>Lines 75-76: \<^verbatim>\<open>__opts__.get('venv_bin') or __pillar__.get('venv_bin')\<close> when no
  binary is given; \<^verbatim>\<open>or\<close> takes its right operand when the left one is \<^verbatim>\<open>None\<close> or
  the empty string.\<close>

definition resolve_venv_bin :: "env \<Rightarrow> options \<Rightarrow> string option" where
  "resolve_venv_bin e a =
     (case venv_bin a of
        Some b \<Rightarrow> Some b
      | None \<Rightarrow>
          (case opts_venv_bin e of
             None \<Rightarrow> pillar_venv_bin e
           | Some b \<Rightarrow> if b \<noteq> [] then Some b else pillar_venv_bin e))"

text \<open>Modelled from the spec: \<^verbatim>\<open>salt.utils.check_or_die\<close> is not in the sources at
  hand. Line 77 says that it raises \<^verbatim>\<open>CommandNotFoundError\<close> if the binary is missing,
  and the specification that the failure is raised when the binary is absent or
  unresolvable; \<open>which\<close> is the lookup that resolves it.\<close>

definition check_or_die :: "env \<Rightarrow> string option \<Rightarrow> error + string" where
  "check_or_die e vb =
     (case vb of
        None \<Rightarrow> Inl (CommandNotFoundError None)
      | Some b \<Rightarrow> if which e b then Inr b else Inl (CommandNotFoundError (Some b)))"

text \<open>\<^verbatim>\<open>tuple([int(i) for i in v.split('rc')[0].split('.')])\<close>; the comprehension stops
  at the first element that \<^verbatim>\<open>int\<close> refuses.\<close>

fun ints :: "string list \<Rightarrow> error + int list" where
  "ints [] = Inr []"
| "ints (s # ss) =
     (case py_int s of
        None \<Rightarrow> Inl (ValueError s)
      | Some n \<Rightarrow> (case ints ss of Inl err \<Rightarrow> Inl err | Inr ns \<Rightarrow> Inr (n # ns)))"

definition version_info :: "string \<Rightarrow> error + int list" where
  "version_info v = ints (split_char CHR ''.'' (before_rc v))"

text \<open>Lines 120-138: the version of the imported module or, when the import fails, of
  the output of \<^verbatim>\<open><venv_bin> --version\<close>.\<close>

definition probe_version ::
  "env \<Rightarrow> string \<Rightarrow> string option \<Rightarrow> state \<Rightarrow> (error + int list) \<times> state" where
  "probe_version e b ra s =
     (case virtualenv_version e of
        Some v \<Rightarrow> (version_info v, s)
      | None \<Rightarrow>
          (let version_cmd = b @ '' --version'';
               ret = run_all e version_cmd ra;
               s' = s\<lparr>spawned := spawned s @ [(version_cmd, ra)]\<rparr>
           in if 0 < retcode ret
              then (Inl (CommandExecutionError version_msg
                           [Repr_str version_cmd, Repr_result ret]), s')
              else (version_info (py_strip (stdout ret)), s')))"

subsection \<open>Flag emission\<close>

text \<open>Lines 155-161: a string with a comma is split and each piece stripped, a string
  without one becomes the only entry, anything else is iterated as it is.\<close>

definition normalize_dirs :: "search_dirs \<Rightarrow> string list" where
  "normalize_dirs d =
     (case d of
        Str s \<Rightarrow> if CHR '','' \<in> set s then map py_strip (split_char CHR '','' s) else [s]
      | Lst es \<Rightarrow> es)"

text \<open>Lines 140-175, the options of the \<^verbatim>\<open>virtualenv\<close> package, in the order of the
  source. \<^verbatim>\<open>if python:\<close> and \<^verbatim>\<open>if prompt:\<close> hold for a non-empty string.\<close>

definition legacy_options :: "options \<Rightarrow> int list \<Rightarrow> state \<Rightarrow> state" where
  "legacy_options a v s =
     (let s1 = (if no_site_packages a = Some True
                then append_tok ''--no-site-packages'' s else s);
          s2 = (if distribute a
                then (if tuple_ge v [1, 10] then log_info distribute_note s1
                      else append_tok ''--distribute'' s1)
                else s1);
          s3 = (case python a of
                  None \<Rightarrow> s2
                | Some p \<Rightarrow> if p \<noteq> [] then append_tok (''--python='' @ p) s2 else s2);
          s4 = (case extra_search_dir a of
                  None \<Rightarrow> s3
                | Some d \<Rightarrow>
                    foldl (\<lambda>st entry. append_tok (''--extra-search-dir='' @ entry) st)
                      s3 (normalize_dirs d));
          s5 = (if never_download a = Some True
                then (if tuple_ge v [1, 10] then log_info never_download_note s4
                      else append_tok ''--never-download'' s4)
                else s4);
          s6 = (case prompt a of
                  None \<Rightarrow> s5
                | Some p \<Rightarrow> if p \<noteq> [] then append_tok (''--prompt='' @ p) s5 else s5)
      in s6)"

text \<open>Lines 209-212, the options of \<^verbatim>\<open>pyvenv\<close>.\<close>

definition standard_options :: "options \<Rightarrow> state \<Rightarrow> state" where
  "standard_options a s =
     (let s1 = (if upgrade a = Some True then append_tok ''--upgrade'' s else s);
          s2 = (if symlinks a = Some True then append_tok ''--symlinks'' s1 else s1)
      in s2)"

text \<open>Lines 214-221, the options both tools have, then the path.\<close>

definition common_options :: "options \<Rightarrow> state \<Rightarrow> state" where
  "common_options a s =
     (let s1 = (if clear a then append_tok ''--clear'' s else s);
          s2 = (if system_site_packages a
                then append_tok ''--system-site-packages'' s1 else s1)
      in append_tok (path a) s2)"

subsection \<open>\<^verbatim>\<open>create\<close>\<close>

text \<open>Lines 75-221: everything before the final call. The first component is the
  exception raised, if any; the second the state reached.\<close>

definition assemble :: "env \<Rightarrow> options \<Rightarrow> error option \<times> state" where
  "assemble e a =
     (case check_or_die e (resolve_venv_bin e a) of
        Inl err \<Rightarrow> (Some err, init_state)
      | Inr b \<Rightarrow>
          (let s1 = (if no_site_packages a \<noteq> None then warn deprecation_msg init_state
                     else init_state)
           in if no_site_packages a = Some True \<and> system_site_packages a
              then (Some (CommandExecutionError exclusive_msg []), s1)
              else
                (let s2 = s1\<lparr>cmd := [b]\<rparr>
                 in if \<not> py_in ''pyvenv'' b
                    then
                      (if upgrade a \<noteq> None
                       then (Some (CommandExecutionError upgrade_msg [Repr_str b]), s2)
                       else if symlinks a \<noteq> None
                       then (Some (CommandExecutionError symlinks_msg [Repr_str b]), s2)
                       else
                         (case probe_version e b (runas a) s2 of
                            (Inl err, s3) \<Rightarrow> (Some err, s3)
                          | (Inr v, s3) \<Rightarrow>
                              (None, common_options a (legacy_options a v s3))))
                    else
                      (if no_site_packages a \<noteq> None
                       then (Some (CommandExecutionError no_site_packages_msg [Repr_str b]), s2)
                       else if python a \<noteq> None
                       then (Some (CommandExecutionError python_msg [Repr_str b]), s2)
                       else if extra_search_dir a \<noteq> None
                       then (Some (CommandExecutionError extra_search_dir_msg [Repr_str b]), s2)
                       else if never_download a \<noteq> None
                       then (Some (CommandExecutionError never_download_msg [Repr_str b]), s2)
                       else if prompt a \<noteq> None
                       then (Some (CommandExecutionError prompt_msg [Repr_str b]), s2)
                       else (None, common_options a (standard_options a s2))))))"

text \<open>Line 223: the joined command is run and the dictionary that \<^verbatim>\<open>cmd.run_all\<close>
  returns is the result of \<^verbatim>\<open>create\<close>, whatever its \<^verbatim>\<open>retcode\<close>.\<close>

definition create :: "env \<Rightarrow> options \<Rightarrow> (error + exec_result) \<times> state" where
  "create e a =
     (case assemble e a of
        (Some err, s) \<Rightarrow> (Inl err, s)
      | (None, s) \<Rightarrow>
          (let line = join_sp (cmd s)
           in (Inr (run_all e line (runas a)),
               s\<lparr>spawned := spawned s @ [(line, runas a)]\<rparr>)))"

subsection \<open>The command line, declaratively\<close>

text \<open>The tokens as the specification lists them: one list per option, concatenated in
  the stated order. They are compared with what the appends of \<open>legacy_options\<close>,
  \<open>standard_options\<close> and \<open>common_options\<close> leave in \<open>cmd\<close>.\<close>

definition no_site_packages_tokens :: "options \<Rightarrow> string list" where
  "no_site_packages_tokens a =
     (if no_site_packages a = Some True then [''--no-site-packages''] else [])"

definition distribute_tokens :: "int list \<Rightarrow> options \<Rightarrow> string list" where
  "distribute_tokens v a =
     (if distribute a \<and> \<not> tuple_ge v [1, 10] then [''--distribute''] else [])"

definition python_tokens :: "options \<Rightarrow> string list" where
  "python_tokens a =
     (case python a of None \<Rightarrow> [] | Some p \<Rightarrow> if p = [] then [] else [''--python='' @ p])"

definition search_dir_tokens :: "options \<Rightarrow> string list" where
  "search_dir_tokens a =
     (case extra_search_dir a of
        None \<Rightarrow> []
      | Some d \<Rightarrow> map (\<lambda>entry. ''--extra-search-dir='' @ entry) (normalize_dirs d))"

definition never_download_tokens :: "int list \<Rightarrow> options \<Rightarrow> string list" where
  "never_download_tokens v a =
     (if never_download a = Some True \<and> \<not> tuple_ge v [1, 10]
      then [''--never-download''] else [])"

definition prompt_tokens :: "options \<Rightarrow> string list" where
  "prompt_tokens a =
     (case prompt a of None \<Rightarrow> [] | Some p \<Rightarrow> if p = [] then [] else [''--prompt='' @ p])"

definition legacy_tokens :: "int list \<Rightarrow> options \<Rightarrow> string list" where
  "legacy_tokens v a =
     no_site_packages_tokens a @ distribute_tokens v a @ python_tokens a
       @ search_dir_tokens a @ never_download_tokens v a @ prompt_tokens a"

definition standard_tokens :: "options \<Rightarrow> string list" where
  "standard_tokens a =
     (if upgrade a = Some True then [''--upgrade''] else [])
       @ (if symlinks a = Some True then [''--symlinks''] else [])"

definition common_tokens :: "options \<Rightarrow> string list" where
  "common_tokens a =
     (if clear a then [''--clear''] else [])
       @ (if system_site_packages a then [''--system-site-packages''] else [])"

text \<open>The notes that replace an obsolete flag.\<close>

definition legacy_notes :: "int list \<Rightarrow> options \<Rightarrow> string list" where
  "legacy_notes v a =
     (if distribute a \<and> tuple_ge v [1, 10] then [distribute_note] else [])
       @ (if never_download a = Some True \<and> tuple_ge v [1, 10]
          then [never_download_note] else [])"

text \<open>The state after line 101: the deprecation warning, if any, and \<^verbatim>\<open>cmd = [venv_bin]\<close>.\<close>

definition entry_state :: "options \<Rightarrow> string \<Rightarrow> state" where
  "entry_state a b =
     (if no_site_packages a \<noteq> None then warn deprecation_msg init_state else init_state)
       \<lparr>cmd := [b]\<rparr>"

text \<open>The tokens between the binary and the path.\<close>

definition flags_of :: "string list \<Rightarrow> string list" where
  "flags_of c = butlast (tl c)"

subsection \<open>Concrete inputs\<close>

text \<open>A host where every command is found, with the \<^verbatim>\<open>virtualenv\<close> module importable
  at the given version; one where the module is missing and every command returns the
  given result; one where no command is found.\<close>

definition env_module :: "string \<Rightarrow> env" where
  "env_module v =
     \<lparr>opts_venv_bin = Some ''virtualenv'', pillar_venv_bin = None, which = (\<lambda>_. True),
      virtualenv_version = Some v,
      run_all = (\<lambda>c r. \<lparr>retcode = 0, stdout = [], stderr = []\<rparr>)\<rparr>"

definition env_console :: "exec_result \<Rightarrow> env" where
  "env_console ret =
     \<lparr>opts_venv_bin = Some ''virtualenv'', pillar_venv_bin = None, which = (\<lambda>_. True),
      virtualenv_version = None, run_all = (\<lambda>c r. ret)\<rparr>"

definition env_missing :: env where
  "env_missing =
     \<lparr>opts_venv_bin = Some ''virtualenv'', pillar_venv_bin = None, which = (\<lambda>_. False),
      virtualenv_version = None,
      run_all = (\<lambda>c r. \<lparr>retcode = 0, stdout = [], stderr = []\<rparr>)\<rparr>"

text \<open>The defaults of the signature of \<^verbatim>\<open>create\<close>, with a path and a binary.\<close>

definition defaults :: "string \<Rightarrow> string option \<Rightarrow> options" where
  "defaults p b =
     \<lparr>path = p, venv_bin = b, no_site_packages = None, system_site_packages = False,
      distribute = False, clear = False, python = None, extra_search_dir = None,
      never_download = None, prompt = None, symlinks = None, upgrade = None, runas = None\<rparr>"

definition both_site_flags :: "string option \<Rightarrow> options" where
  "both_site_flags b =
     (defaults ''/tmp/env'' b)\<lparr>no_site_packages := Some True, system_site_packages := True\<rparr>"

definition failed_probe :: exec_result where
  "failed_probe = \<lparr>retcode = 1, stdout = [], stderr = ''virtualenv: not found''\<rparr>"

definition killed_probe :: exec_result where
  "killed_probe = \<lparr>retcode = - 9, stdout = ''1.9'', stderr = []\<rparr>"

definition silent_probe :: exec_result where
  "silent_probe = \<lparr>retcode = - 9, stdout = [], stderr = []\<rparr>"


definition gated_flags :: options where
  "gated_flags =
     (defaults ''/tmp/env'' (Some ''virtualenv''))\<lparr>distribute := True, never_download := Some True\<rparr>"

definition with_search_dir :: "search_dirs \<Rightarrow> options" where
  "with_search_dir d = (defaults ''/tmp/env'' (Some ''virtualenv''))\<lparr>extra_search_dir := Some d\<rparr>"

definition pyvenv_clear_system :: options where
  "pyvenv_clear_system =
     (defaults ''/tmp/env'' (Some ''pyvenv''))\<lparr>clear := True, system_site_packages := True\<rparr>"

definition all_legacy_flags :: options where
  "all_legacy_flags =
     (defaults ''/tmp/env'' (Some ''virtualenv''))
       \<lparr>no_site_packages := Some True, distribute := True, clear := True,
        python := Some ''python2.7'', extra_search_dir := Some (Lst [''/opt/a'', ''/opt/b'']),
        never_download := Some True, prompt := Some ''env''\<rparr>"

lemmas model_defs =
  create_def assemble_def check_or_die_def resolve_venv_bin_def init_state_def
  probe_version_def version_info_def py_int_def py_strip_def is_space_def is_digit_def
  digits_val_def legacy_options_def standard_options_def common_options_def append_tok_def
  log_info_def warn_def normalize_dirs_def flags_of_def Let_def

lemmas input_defs =
  env_module_def env_console_def env_missing_def defaults_def both_site_flags_def
  gated_flags_def with_search_dir_def pyvenv_clear_system_def all_legacy_flags_def

lemmas result_defs = failed_probe_def killed_probe_def silent_probe_def

section \<open>Properties\<close>

subsection \<open>What the appends leave in the state\<close>

lemma cmd_append_tok [simp]: "cmd (append_tok t s) = cmd s @ [t]"
  by (simp add: append_tok_def)

lemma cmd_log_info [simp]: "cmd (log_info m s) = cmd s"
  by (simp add: log_info_def)

lemma spawned_append_tok [simp]: "spawned (append_tok t s) = spawned s"
  by (simp add: append_tok_def)

lemma spawned_log_info [simp]: "spawned (log_info m s) = spawned s"
  by (simp add: log_info_def)

lemma logged_append_tok [simp]: "logged (append_tok t s) = logged s"
  by (simp add: append_tok_def)

lemma logged_log_info [simp]: "logged (log_info m s) = logged s @ [m]"
  by (simp add: log_info_def)

lemma cmd_foldl_append:
  "cmd (foldl (\<lambda>st entry. append_tok (f entry) st) s es) = cmd s @ map f es"
  by (induction es arbitrary: s) simp_all

lemma spawned_foldl_append:
  "spawned (foldl (\<lambda>st entry. append_tok (f entry) st) s es) = spawned s"
  by (induction es arbitrary: s) simp_all

lemma logged_foldl_append:
  "logged (foldl (\<lambda>st entry. append_tok (f entry) st) s es) = logged s"
  by (induction es arbitrary: s) simp_all

lemma cmd_legacy_options: "cmd (legacy_options a v s) = cmd s @ legacy_tokens v a"
  by (simp add: legacy_options_def legacy_tokens_def no_site_packages_tokens_def
      distribute_tokens_def python_tokens_def search_dir_tokens_def never_download_tokens_def
      prompt_tokens_def cmd_foldl_append Let_def split: option.split)

lemma spawned_legacy_options: "spawned (legacy_options a v s) = spawned s"
  by (simp add: legacy_options_def spawned_foldl_append Let_def split: option.split)

lemma logged_legacy_options: "logged (legacy_options a v s) = logged s @ legacy_notes v a"
  by (simp add: legacy_options_def legacy_notes_def logged_foldl_append Let_def
      split: option.split)

lemma cmd_standard_options: "cmd (standard_options a s) = cmd s @ standard_tokens a"
  by (simp add: standard_options_def standard_tokens_def Let_def)

lemma spawned_standard_options: "spawned (standard_options a s) = spawned s"
  by (simp add: standard_options_def Let_def)

lemma cmd_common_options: "cmd (common_options a s) = cmd s @ common_tokens a @ [path a]"
  by (simp add: common_options_def common_tokens_def Let_def)

lemma spawned_common_options: "spawned (common_options a s) = spawned s"
  by (simp add: common_options_def Let_def)

lemma logged_common_options: "logged (common_options a s) = logged s"
  by (simp add: common_options_def Let_def)

lemma cmd_entry_state [simp]: "cmd (entry_state a b) = [b]"
  by (simp add: entry_state_def)

lemma spawned_entry_state [simp]: "spawned (entry_state a b) = []"
  by (simp add: entry_state_def warn_def init_state_def)

lemma logged_entry_state [simp]: "logged (entry_state a b) = []"
  by (simp add: entry_state_def warn_def init_state_def)

subsection \<open>The version probe\<close>

lemma fst_probe_version:
  "fst (probe_version e b ra s) = fst (probe_version e b ra init_state)"
  by (simp add: probe_version_def Let_def split: option.split)

lemma cmd_probe_version: "cmd (snd (probe_version e b ra s)) = cmd s"
  by (simp add: probe_version_def Let_def split: option.split)

lemma logged_probe_version: "logged (snd (probe_version e b ra s)) = logged s"
  by (simp add: probe_version_def Let_def split: option.split)

lemma spawned_probe_version:
  "spawned (snd (probe_version e b ra s)) =
     spawned s @ (if virtualenv_version e = None then [(b @ '' --version'', ra)] else [])"
  by (simp add: probe_version_def Let_def split: option.split)

lemma ints_error: "ints xs = Inl err \<Longrightarrow> \<exists>lit. err = ValueError lit"
  by (induction xs arbitrary: err) (auto split: option.splits sum.splits)

lemma version_info_error: "version_info v = Inl err \<Longrightarrow> \<exists>lit. err = ValueError lit"
  unfolding version_info_def by (rule ints_error)

subsection \<open>The branches of \<open>assemble\<close>\<close>

lemma assemble_not_found:
  "check_or_die e (resolve_venv_bin e a) = Inl err \<Longrightarrow> assemble e a = (Some err, init_state)"
  by (simp add: assemble_def)

lemma assemble_exclusive:
  "check_or_die e (resolve_venv_bin e a) = Inr b \<Longrightarrow> no_site_packages a = Some True \<Longrightarrow>
   system_site_packages a \<Longrightarrow>
   assemble e a = (Some (CommandExecutionError exclusive_msg []), warn deprecation_msg init_state)"
  by (simp add: assemble_def)

lemma assemble_legacy:
  assumes "check_or_die e (resolve_venv_bin e a) = Inr b"
    and "\<not> (no_site_packages a = Some True \<and> system_site_packages a)"
    and "\<not> py_in ''pyvenv'' b"
  shows "assemble e a =
     (if upgrade a \<noteq> None
      then (Some (CommandExecutionError upgrade_msg [Repr_str b]), entry_state a b)
      else if symlinks a \<noteq> None
      then (Some (CommandExecutionError symlinks_msg [Repr_str b]), entry_state a b)
      else (case probe_version e b (runas a) (entry_state a b) of
              (Inl err, s3) \<Rightarrow> (Some err, s3)
            | (Inr v, s3) \<Rightarrow> (None, common_options a (legacy_options a v s3))))"
  using assms by (auto simp add: assemble_def entry_state_def Let_def)

lemma assemble_standard:
  assumes "check_or_die e (resolve_venv_bin e a) = Inr b"
    and "\<not> (no_site_packages a = Some True \<and> system_site_packages a)"
    and "py_in ''pyvenv'' b"
  shows "assemble e a =
     (if no_site_packages a \<noteq> None
      then (Some (CommandExecutionError no_site_packages_msg [Repr_str b]), entry_state a b)
      else if python a \<noteq> None
      then (Some (CommandExecutionError python_msg [Repr_str b]), entry_state a b)
      else if extra_search_dir a \<noteq> None
      then (Some (CommandExecutionError extra_search_dir_msg [Repr_str b]), entry_state a b)
      else if never_download a \<noteq> None
      then (Some (CommandExecutionError never_download_msg [Repr_str b]), entry_state a b)
      else if prompt a \<noteq> None
      then (Some (CommandExecutionError prompt_msg [Repr_str b]), entry_state a b)
      else (None, common_options a (standard_options a (entry_state a b))))"
  using assms by (auto simp add: assemble_def entry_state_def Let_def)

text \<open>What a run that raises nothing has passed and built.\<close>

lemma assemble_success:
  assumes "assemble e a = (None, s)"
  shows "\<exists>b. check_or_die e (resolve_venv_bin e a) = Inr b
           \<and> \<not> (no_site_packages a = Some True \<and> system_site_packages a)
           \<and> (if py_in ''pyvenv'' b
               then cmd s = b # standard_tokens a @ common_tokens a @ [path a]
               else \<exists>v. fst (probe_version e b (runas a) init_state) = Inr v
                      \<and> upgrade a = None \<and> symlinks a = None
                      \<and> logged s = legacy_notes v a
                      \<and> cmd s = b # legacy_tokens v a @ common_tokens a @ [path a])"
proof (cases "check_or_die e (resolve_venv_bin e a)")
  case (Inl err)
  with assms show ?thesis by (simp add: assemble_not_found)
next
  case (Inr b)
  show ?thesis
  proof (cases "no_site_packages a = Some True \<and> system_site_packages a")
    case True
    with Inr assms show ?thesis by (simp add: assemble_exclusive)
  next
    case excl: False
    show ?thesis
    proof (cases "py_in ''pyvenv'' b")
      case True
      from assemble_standard [OF Inr excl True] assms
      have "s = common_options a (standard_options a (entry_state a b))"
        by (simp split: if_splits)
      then have "cmd s = b # standard_tokens a @ common_tokens a @ [path a]"
        by (simp add: cmd_common_options cmd_standard_options)
      with Inr excl True show ?thesis by simp
    next
      case False
      obtain r s3 where p: "probe_version e b (runas a) (entry_state a b) = (r, s3)"
        by (cases "probe_version e b (runas a) (entry_state a b)")
      from assemble_legacy [OF Inr excl False] assms p
      obtain v where u: "upgrade a = None" "symlinks a = None" and r: "r = Inr v"
        and s: "s = common_options a (legacy_options a v s3)"
        by (cases r) (auto split: if_splits)
      have "cmd s3 = [b]"
        using cmd_probe_version [of e b "runas a" "entry_state a b"] p by simp
      then have c: "cmd s = b # legacy_tokens v a @ common_tokens a @ [path a]"
        by (simp add: s cmd_common_options cmd_legacy_options)
      have "logged s3 = []"
        using logged_probe_version [of e b "runas a" "entry_state a b"] p by simp
      then have l: "logged s = legacy_notes v a"
        by (simp add: s logged_common_options logged_legacy_options)
      have "fst (probe_version e b (runas a) init_state) = Inr v"
        using fst_probe_version [of e b "runas a" "entry_state a b"] p r by simp
      with Inr excl False u c l show ?thesis by simp
    qed
  qed
qed

lemma create_success:
  "assemble e a = (None, s) \<Longrightarrow>
   create e a = (Inr (run_all e (join_sp (cmd s)) (runas a)),
                 s\<lparr>spawned := spawned s @ [(join_sp (cmd s), runas a)]\<rparr>)"
  by (simp add: create_def Let_def)

lemma create_failure: "assemble e a = (Some err, s) \<Longrightarrow> create e a = (Inl err, s)"
  by (simp add: create_def)

lemma create_Inr_assemble:
  "fst (create e a) = Inr r \<Longrightarrow> \<exists>s. assemble e a = (None, s) \<and> cmd (snd (create e a)) = cmd s"
  by (cases "assemble e a") (auto simp add: create_def Let_def split: option.splits)

subsection \<open>Tokens\<close>

lemma starts_with_append [simp]: "starts_with p (p @ s)"
  by (induction p) simp_all

lemma filter_starts_with_map:
  "filter (starts_with p) (map (\<lambda>entry. p @ entry) es) = map (\<lambda>entry. p @ entry) es"
  by (induction es) simp_all

lemma filter_search_dir_tokens:
  "filter (starts_with ''--extra-search-dir='') (legacy_tokens v a @ common_tokens a)
     = search_dir_tokens a"
  by (simp add: legacy_tokens_def common_tokens_def no_site_packages_tokens_def
      distribute_tokens_def python_tokens_def never_download_tokens_def prompt_tokens_def
      search_dir_tokens_def filter_starts_with_map split: option.split)

lemma distribute_in_tokens:
  "''--distribute'' \<in> set (legacy_tokens v a @ common_tokens a)
     \<longleftrightarrow> distribute a \<and> \<not> tuple_ge v [1, 10]"
  by (auto simp add: legacy_tokens_def common_tokens_def no_site_packages_tokens_def
      distribute_tokens_def python_tokens_def never_download_tokens_def prompt_tokens_def
      search_dir_tokens_def split: option.splits if_splits)

lemma never_download_in_tokens:
  "''--never-download'' \<in> set (legacy_tokens v a @ common_tokens a)
     \<longleftrightarrow> never_download a = Some True \<and> \<not> tuple_ge v [1, 10]"
  by (auto simp add: legacy_tokens_def common_tokens_def no_site_packages_tokens_def
      distribute_tokens_def python_tokens_def never_download_tokens_def prompt_tokens_def
      search_dir_tokens_def split: option.splits if_splits)

lemma flags_start_with_dashes:
  "t \<in> set (legacy_tokens v a @ common_tokens a) \<Longrightarrow> starts_with ''--'' t"
  by (auto simp add: legacy_tokens_def common_tokens_def no_site_packages_tokens_def
      distribute_tokens_def python_tokens_def never_download_tokens_def prompt_tokens_def
      search_dir_tokens_def split: option.splits if_splits)

lemma standard_flags_start_with_dashes:
  "t \<in> set (standard_tokens a @ common_tokens a) \<Longrightarrow> starts_with ''--'' t"
  by (auto simp add: standard_tokens_def common_tokens_def split: if_splits)

lemma flags_of_cmd [simp]: "flags_of (b # ts @ [p]) = ts"
  by (simp add: flags_of_def butlast_append)

subsection \<open>The legacy branch up to the probe\<close>

lemma create_legacy_probe:
  assumes "check_or_die e (resolve_venv_bin e a) = Inr b"
    and "\<not> (no_site_packages a = Some True \<and> system_site_packages a)"
    and "\<not> py_in ''pyvenv'' b"
    and "upgrade a = None" and "symlinks a = None"
  shows "fst (create e a) =
     (case fst (probe_version e b (runas a) init_state) of
        Inl err \<Rightarrow> Inl err
      | Inr v \<Rightarrow>
          Inr (run_all e (join_sp (b # legacy_tokens v a @ common_tokens a @ [path a]))
                 (runas a)))"
proof -
  obtain r s3 where p: "probe_version e b (runas a) (entry_state a b) = (r, s3)"
    by (cases "probe_version e b (runas a) (entry_state a b)")
  have f: "fst (probe_version e b (runas a) init_state) = r"
    using fst_probe_version [of e b "runas a" "entry_state a b"] p by simp
  have c: "cmd s3 = [b]"
    using cmd_probe_version [of e b "runas a" "entry_state a b"] p by simp
  show ?thesis
  proof (cases r)
    case (Inl err)
    with assemble_legacy [OF assms(1-3)] assms(4,5) p
    have "assemble e a = (Some err, s3)" by simp
    with f Inl show ?thesis by (simp add: create_failure)
  next
    case (Inr v)
    with assemble_legacy [OF assms(1-3)] assms(4,5) p
    have "assemble e a = (None, common_options a (legacy_options a v s3))" by simp
    from create_success [OF this] f Inr c show ?thesis
      by (simp add: cmd_common_options cmd_legacy_options)
  qed
qed

lemma spawned_legacy_probe:
  assumes "check_or_die e (resolve_venv_bin e a) = Inr b"
    and "\<not> (no_site_packages a = Some True \<and> system_site_packages a)"
    and "\<not> py_in ''pyvenv'' b"
    and "upgrade a = None" and "symlinks a = None"
    and "virtualenv_version e = None"
  shows "(b @ '' --version'', runas a) \<in> set (spawned (snd (create e a)))"
proof -
  obtain r s3 where p: "probe_version e b (runas a) (entry_state a b) = (r, s3)"
    by (cases "probe_version e b (runas a) (entry_state a b)")
  have sp: "spawned s3 = [(b @ '' --version'', runas a)]"
    using spawned_probe_version [of e b "runas a" "entry_state a b"] p assms(6) by simp
  show ?thesis
  proof (cases r)
    case (Inl err)
    with assemble_legacy [OF assms(1-3)] assms(4,5) p
    have "assemble e a = (Some err, s3)" by simp
    with sp show ?thesis by (simp add: create_failure)
  next
    case (Inr v)
    with assemble_legacy [OF assms(1-3)] assms(4,5) p
    have "assemble e a = (None, common_options a (legacy_options a v s3))" by simp
    from create_success [OF this] sp show ?thesis
      by (simp add: spawned_common_options spawned_legacy_options)
  qed
qed

section \<open>The claims\<close>

text \<open>
  C1 (amended). Once the binary has passed \<^verbatim>\<open>check_or_die\<close>, every call with
  \<^verbatim>\<open>no_site_packages\<close> and \<^verbatim>\<open>system_site_packages\<close> both true raises the
  \<^verbatim>\<open>CommandExecutionError\<close> of mutually exclusive options, whatever the other arguments
  and whichever tool the binary names; at that point \<^verbatim>\<open>cmd\<close> is still empty and
  \<^verbatim>\<open>cmd.run_all\<close> has not been called.
\<close>

theorem C1_exclusive_options:
  assumes "check_or_die e (resolve_venv_bin e a) = Inr b"
    and "no_site_packages a = Some True"
    and "system_site_packages a"
  shows "fst (create e a) = Inl (CommandExecutionError exclusive_msg [])
       \<and> cmd (snd (create e a)) = []
       \<and> spawned (snd (create e a)) = []"
  using create_failure [OF assemble_exclusive [OF assms]]
  by (simp add: warn_def init_state_def)

theorem C1_exclusive_options_witness:
  "check_or_die (env_module ''1.9'') (resolve_venv_bin (env_module ''1.9'') (both_site_flags None))
     = Inr ''virtualenv''
   \<and> no_site_packages (both_site_flags None) = Some True
   \<and> system_site_packages (both_site_flags None)
   \<and> fst (create (env_module ''1.9'') (both_site_flags None))
       = Inl (CommandExecutionError exclusive_msg [])
   \<and> cmd (snd (create (env_module ''1.9'') (both_site_flags None))) = []
   \<and> spawned (snd (create (env_module ''1.9'') (both_site_flags None))) = []"
proof -
  have h1: "check_or_die (env_module ''1.9'')
              (resolve_venv_bin (env_module ''1.9'') (both_site_flags None)) = Inr ''virtualenv''"
    by (simp add: check_or_die_def resolve_venv_bin_def input_defs)
  have h2: "no_site_packages (both_site_flags None) = Some True"
    by (simp add: input_defs)
  have h3: "system_site_packages (both_site_flags None)"
    by (simp add: input_defs)
  from C1_exclusive_options [OF h1 h2 h3] h1 h2 h3 show ?thesis by simp
qed

text \<open>
  C1 as stated fails where the binary is not found: both options are true and the call
  raises \<^verbatim>\<open>CommandNotFoundError\<close> from line 78, before the test of line 93.
\<close>

theorem C1_counterexample:
  "no_site_packages (both_site_flags None) = Some True
   \<and> system_site_packages (both_site_flags None)
   \<and> fst (create env_missing (both_site_flags None))
       = Inl (CommandNotFoundError (Some ''virtualenv''))
   \<and> fst (create env_missing (both_site_flags None))
       \<noteq> Inl (CommandExecutionError exclusive_msg [])"
  by (simp add: model_defs input_defs)

text \<open>
  C2 (amended). For the legacy backend the version is probed on every call that has
  passed the checks before it (binary found, no mutually exclusive pair, neither
  \<^verbatim>\<open>upgrade\<close> nor \<^verbatim>\<open>symlinks\<close> given), whether or not \<^verbatim>\<open>distribute\<close> or
  \<^verbatim>\<open>never_download\<close> is set: when the \<^verbatim>\<open>virtualenv\<close> module cannot be imported,
  \<^verbatim>\<open><venv_bin> --version\<close> is run. The call raises a \<^verbatim>\<open>CommandExecutionError\<close> if and
  only if the module cannot be imported and that command returns a code greater than zero;
  version text that \<^verbatim>\<open>int\<close> refuses raises \<^verbatim>\<open>ValueError\<close>.
\<close>

theorem C2_version_probe:
  assumes "check_or_die e (resolve_venv_bin e a) = Inr b"
    and "\<not> (no_site_packages a = Some True \<and> system_site_packages a)"
    and "\<not> py_in ''pyvenv'' b"
    and "upgrade a = None" and "symlinks a = None"
  shows "(virtualenv_version e = None
            \<longrightarrow> (b @ '' --version'', runas a) \<in> set (spawned (snd (create e a))))
       \<and> ((\<exists>m args. fst (create e a) = Inl (CommandExecutionError m args))
            \<longleftrightarrow> virtualenv_version e = None
                \<and> 0 < retcode (run_all e (b @ '' --version'') (runas a)))
       \<and> (virtualenv_version e = None \<and> 0 < retcode (run_all e (b @ '' --version'') (runas a))
            \<longrightarrow> fst (create e a) =
                  Inl (CommandExecutionError version_msg
                         [Repr_str (b @ '' --version''),
                          Repr_result (run_all e (b @ '' --version'') (runas a))]))
       \<and> (\<forall>lit. fst (create e a) = Inl (ValueError lit) \<longleftrightarrow>
            (case virtualenv_version e of
               Some v \<Rightarrow> version_info v = Inl (ValueError lit)
             | None \<Rightarrow>
                 \<not> 0 < retcode (run_all e (b @ '' --version'') (runas a))
                 \<and> version_info (py_strip (stdout (run_all e (b @ '' --version'') (runas a))))
                     = Inl (ValueError lit)))"
proof -
  let ?ret = "run_all e (b @ '' --version'') (runas a)"
  note c = create_legacy_probe [OF assms]
  have 1: "virtualenv_version e = None
             \<longrightarrow> (b @ '' --version'', runas a) \<in> set (spawned (snd (create e a)))"
    using spawned_legacy_probe [OF assms] by simp
  have 3: "virtualenv_version e = None \<and> 0 < retcode ?ret
             \<longrightarrow> fst (create e a) =
                   Inl (CommandExecutionError version_msg
                          [Repr_str (b @ '' --version''), Repr_result ?ret])"
    by (simp add: c probe_version_def Let_def)
  have 2: "(\<exists>m args. fst (create e a) = Inl (CommandExecutionError m args))
             \<longleftrightarrow> virtualenv_version e = None \<and> 0 < retcode ?ret"
  proof
    assume "\<exists>m args. fst (create e a) = Inl (CommandExecutionError m args)"
    then obtain m args where x: "fst (create e a) = Inl (CommandExecutionError m args)"
      by blast
    show "virtualenv_version e = None \<and> 0 < retcode ?ret"
    proof (rule ccontr)
      assume n: "\<not> (virtualenv_version e = None \<and> 0 < retcode ?ret)"
      then obtain t where t: "fst (probe_version e b (runas a) init_state) = version_info t"
        by (cases "virtualenv_version e") (auto simp add: probe_version_def Let_def)
      show False
      proof (cases "version_info t")
        case (Inl err)
        with version_info_error obtain lit where "err = ValueError lit" by blast
        with x c t Inl show False by simp
      next
        case (Inr v)
        with x c t show False by simp
      qed
    qed
  next
    assume "virtualenv_version e = None \<and> 0 < retcode ?ret"
    with 3 show "\<exists>m args. fst (create e a) = Inl (CommandExecutionError m args)"
      by blast
  qed
  have 4: "\<forall>lit. fst (create e a) = Inl (ValueError lit) \<longleftrightarrow>
            (case virtualenv_version e of
               Some v \<Rightarrow> version_info v = Inl (ValueError lit)
             | None \<Rightarrow>
                 \<not> 0 < retcode ?ret
                 \<and> version_info (py_strip (stdout ?ret)) = Inl (ValueError lit))"
  proof (cases "virtualenv_version e")
    case None
    then show ?thesis
      by (cases "0 < retcode ?ret")
        (auto simp add: c probe_version_def Let_def split: sum.splits)
  next
    case (Some v)
    then show ?thesis
      by (auto simp add: c probe_version_def Let_def split: sum.splits)
  qed
  from 1 2 3 4 show ?thesis by blast
qed

theorem C2_version_probe_witness:
  "check_or_die (env_console failed_probe)
      (resolve_venv_bin (env_console failed_probe) (defaults ''/tmp/env'' None))
     = Inr ''virtualenv''
   \<and> \<not> py_in ''pyvenv'' ''virtualenv''
   \<and> \<not> distribute (defaults ''/tmp/env'' None)
   \<and> never_download (defaults ''/tmp/env'' None) = None
   \<and> (''virtualenv --version'', None)
        \<in> set (spawned (snd (create (env_console failed_probe) (defaults ''/tmp/env'' None))))
   \<and> fst (create (env_console failed_probe) (defaults ''/tmp/env'' None))
       = Inl (CommandExecutionError version_msg
                [Repr_str ''virtualenv --version'', Repr_result failed_probe])"
proof -
  let ?e = "env_console failed_probe" and ?a = "defaults ''/tmp/env'' None"
  have h1: "check_or_die ?e (resolve_venv_bin ?e ?a) = Inr ''virtualenv''"
    by (simp add: check_or_die_def resolve_venv_bin_def input_defs)
  have h2: "\<not> (no_site_packages ?a = Some True \<and> system_site_packages ?a)"
    by (simp add: input_defs)
  have h3: "\<not> py_in ''pyvenv'' ''virtualenv''" by simp
  have h4: "upgrade ?a = None" and h5: "symlinks ?a = None"
    by (simp_all add: input_defs)
  have n: "virtualenv_version ?e = None" "runas ?a = None"
    "0 < retcode (run_all ?e ''virtualenv --version'' None)"
    "run_all ?e ''virtualenv --version'' None = failed_probe"
    by (simp_all add: input_defs result_defs)
  have d: "\<not> distribute ?a" "never_download ?a = None"
    by (simp_all add: input_defs)
  from C2_version_probe [OF h1 h2 h3 h4 h5] n h1 h3 d show ?thesis by simp
qed

text \<open>
  C2 as stated fails: with neither \<^verbatim>\<open>distribute\<close> nor \<^verbatim>\<open>never_download\<close> set, the
  version command is run all the same, and its failure fails the call.
\<close>

theorem C2_counterexample:
  "\<not> distribute (defaults ''/tmp/env'' (Some ''virtualenv''))
   \<and> never_download (defaults ''/tmp/env'' (Some ''virtualenv'')) = None
   \<and> create (env_console failed_probe) (defaults ''/tmp/env'' (Some ''virtualenv''))
       = (Inl (CommandExecutionError version_msg
                 [Repr_str ''virtualenv --version'', Repr_result failed_probe]),
          \<lparr>cmd = [''virtualenv''], warned = [], logged = [],
           spawned = [(''virtualenv --version'', None)]\<rparr>)"
  by (simp add: model_defs input_defs result_defs)

text \<open>
  C3 (amended). For the standard backend (the binary, once found, contains
  \<^verbatim>\<open>pyvenv\<close>), unless \<^verbatim>\<open>no_site_packages\<close> and \<^verbatim>\<open>system_site_packages\<close> are both
  true, a call with any of \<^verbatim>\<open>no_site_packages\<close>, \<^verbatim>\<open>python\<close>, \<^verbatim>\<open>extra_search_dir\<close>,
  \<^verbatim>\<open>never_download\<close>, \<^verbatim>\<open>prompt\<close> other than \<^verbatim>\<open>None\<close> raises a
  \<^verbatim>\<open>CommandExecutionError\<close> whose message is the one of the first such option, in this
  order, formatted with the binary; nothing has been run.
\<close>

theorem C3_standard_rejects:
  assumes "check_or_die e (resolve_venv_bin e a) = Inr b"
    and "py_in ''pyvenv'' b"
    and "\<not> (no_site_packages a = Some True \<and> system_site_packages a)"
    and "no_site_packages a \<noteq> None \<or> python a \<noteq> None \<or> extra_search_dir a \<noteq> None
         \<or> never_download a \<noteq> None \<or> prompt a \<noteq> None"
  shows "fst (create e a) =
           Inl (CommandExecutionError
                  (if no_site_packages a \<noteq> None then no_site_packages_msg
                   else if python a \<noteq> None then python_msg
                   else if extra_search_dir a \<noteq> None then extra_search_dir_msg
                   else if never_download a \<noteq> None then never_download_msg
                   else prompt_msg)
                  [Repr_str b])
       \<and> spawned (snd (create e a)) = []"
proof -
  obtain m where "assemble e a = (Some (CommandExecutionError m [Repr_str b]), entry_state a b)"
    and "m = (if no_site_packages a \<noteq> None then no_site_packages_msg
              else if python a \<noteq> None then python_msg
              else if extra_search_dir a \<noteq> None then extra_search_dir_msg
              else if never_download a \<noteq> None then never_download_msg
              else prompt_msg)"
    using assemble_standard [OF assms(1,3,2)] assms(4) by (simp split: if_splits)
  then show ?thesis by (simp add: create_failure)
qed

theorem C3_standard_rejects_witness:
  "check_or_die (env_module ''1.9'')
      (resolve_venv_bin (env_module ''1.9'')
         ((defaults ''/tmp/env'' (Some ''pyvenv''))\<lparr>python := Some ''python2.7''\<rparr>))
     = Inr ''pyvenv''
   \<and> py_in ''pyvenv'' ''pyvenv''
   \<and> fst (create (env_module ''1.9'')
             ((defaults ''/tmp/env'' (Some ''pyvenv''))\<lparr>python := Some ''python2.7''\<rparr>))
       = Inl (CommandExecutionError python_msg [Repr_str ''pyvenv''])
   \<and> spawned (snd (create (env_module ''1.9'')
             ((defaults ''/tmp/env'' (Some ''pyvenv''))\<lparr>python := Some ''python2.7''\<rparr>))) = []
   \<and> py_in ''`python`'' python_msg"
proof -
  let ?e = "env_module ''1.9''"
  let ?a = "(defaults ''/tmp/env'' (Some ''pyvenv''))\<lparr>python := Some ''python2.7''\<rparr>"
  have h1: "check_or_die ?e (resolve_venv_bin ?e ?a) = Inr ''pyvenv''"
    by (simp add: check_or_die_def resolve_venv_bin_def input_defs)
  have h2: "py_in ''pyvenv'' ''pyvenv''" by simp
  have h3: "\<not> (no_site_packages ?a = Some True \<and> system_site_packages ?a)"
    by (simp add: input_defs)
  have h4: "no_site_packages ?a \<noteq> None \<or> python ?a \<noteq> None \<or> extra_search_dir ?a \<noteq> None
         \<or> never_download ?a \<noteq> None \<or> prompt ?a \<noteq> None"
    by (simp add: input_defs)
  have n: "no_site_packages ?a = None" "python ?a \<noteq> None"
    by (simp_all add: input_defs)
  have p: "py_in ''`python`'' python_msg" by (simp add: python_msg_def)
  from C3_standard_rejects [OF h1 h2 h3 h4] n h1 h2 p show ?thesis by simp
qed

text \<open>
  C3 as stated fails in two places that precede the test of the backend: with both site
  options true the error is the one of the mutually exclusive pair, which names neither an
  unsupported option nor the binary; with a binary that is not found it is
  \<^verbatim>\<open>CommandNotFoundError\<close>.
\<close>

theorem C3_counterexample:
  "py_in ''pyvenv'' ''pyvenv''
   \<and> no_site_packages (both_site_flags (Some ''pyvenv'')) \<noteq> None
   \<and> fst (create (env_module ''1.9'') (both_site_flags (Some ''pyvenv'')))
       = Inl (CommandExecutionError exclusive_msg [])
   \<and> fst (create env_missing (both_site_flags (Some ''pyvenv'')))
       = Inl (CommandNotFoundError (Some ''pyvenv''))"
  by (simp add: model_defs input_defs)

text \<open>
  C4 (amended). For the legacy backend (the binary, once found, does not contain
  \<^verbatim>\<open>pyvenv\<close>), unless \<^verbatim>\<open>no_site_packages\<close> and \<^verbatim>\<open>system_site_packages\<close> are both
  true, a call with \<^verbatim>\<open>upgrade\<close> or \<^verbatim>\<open>symlinks\<close> other than \<^verbatim>\<open>None\<close>, true or false,
  raises a \<^verbatim>\<open>CommandExecutionError\<close> whose message is the one of \<^verbatim>\<open>upgrade\<close> if it is
  given and of \<^verbatim>\<open>symlinks\<close> otherwise, formatted with the binary; the version has not
  been probed and nothing has been run.
\<close>

theorem C4_legacy_rejects:
  assumes "check_or_die e (resolve_venv_bin e a) = Inr b"
    and "\<not> py_in ''pyvenv'' b"
    and "\<not> (no_site_packages a = Some True \<and> system_site_packages a)"
    and "upgrade a \<noteq> None \<or> symlinks a \<noteq> None"
  shows "fst (create e a) =
           Inl (CommandExecutionError
                  (if upgrade a \<noteq> None then upgrade_msg else symlinks_msg) [Repr_str b])
       \<and> spawned (snd (create e a)) = []"
proof -
  have "assemble e a =
          (Some (CommandExecutionError
                   (if upgrade a \<noteq> None then upgrade_msg else symlinks_msg) [Repr_str b]),
           entry_state a b)"
    using assemble_legacy [OF assms(1,3,2)] assms(4)
    by (cases "upgrade a = None") auto
  then show ?thesis by (simp add: create_failure)
qed

theorem C4_legacy_rejects_witness:
  "check_or_die (env_console failed_probe)
      (resolve_venv_bin (env_console failed_probe)
         ((defaults ''/tmp/env'' None)\<lparr>symlinks := Some False\<rparr>))
     = Inr ''virtualenv''
   \<and> \<not> py_in ''pyvenv'' ''virtualenv''
   \<and> fst (create (env_console failed_probe)
             ((defaults ''/tmp/env'' None)\<lparr>symlinks := Some False\<rparr>))
       = Inl (CommandExecutionError symlinks_msg [Repr_str ''virtualenv''])
   \<and> spawned (snd (create (env_console failed_probe)
             ((defaults ''/tmp/env'' None)\<lparr>symlinks := Some False\<rparr>))) = []"
proof -
  let ?e = "env_console failed_probe"
  let ?a = "(defaults ''/tmp/env'' None)\<lparr>symlinks := Some False\<rparr>"
  have h1: "check_or_die ?e (resolve_venv_bin ?e ?a) = Inr ''virtualenv''"
    by (simp add: check_or_die_def resolve_venv_bin_def input_defs)
  have h2: "\<not> py_in ''pyvenv'' ''virtualenv''" by simp
  have h3: "\<not> (no_site_packages ?a = Some True \<and> system_site_packages ?a)"
    by (simp add: input_defs)
  have h4: "upgrade ?a \<noteq> None \<or> symlinks ?a \<noteq> None"
    by (simp add: input_defs)
  have n: "upgrade ?a = None" by (simp add: input_defs)
  from C4_legacy_rejects [OF h1 h2 h3 h4] n h1 h2 show ?thesis by simp
qed

text \<open>
  C4 as stated fails in the same two places: with \<^verbatim>\<open>upgrade\<close> given and both site
  options true the error is the one of the mutually exclusive pair; with a binary that is
  not found it is \<^verbatim>\<open>CommandNotFoundError\<close>.
\<close>

theorem C4_counterexample:
  "\<not> py_in ''pyvenv'' ''virtualenv''
   \<and> upgrade ((both_site_flags None)\<lparr>upgrade := Some True\<rparr>) \<noteq> None
   \<and> fst (create (env_module ''1.9'') ((both_site_flags None)\<lparr>upgrade := Some True\<rparr>))
       = Inl (CommandExecutionError exclusive_msg [])
   \<and> fst (create env_missing ((both_site_flags None)\<lparr>upgrade := Some True\<rparr>))
       = Inl (CommandNotFoundError (Some ''virtualenv''))"
  by (simp add: model_defs input_defs)

subsection \<open>The flags of a successful legacy run\<close>

lemma legacy_success:
  assumes "assemble e a = (None, s)"
    and "check_or_die e (resolve_venv_bin e a) = Inr b"
    and "\<not> py_in ''pyvenv'' b"
  shows "\<exists>v. fst (probe_version e b (runas a) init_state) = Inr v
           \<and> flags_of (cmd s) = legacy_tokens v a @ common_tokens a
           \<and> logged s = legacy_notes v a"
proof -
  from assemble_success [OF assms(1)] assms(2,3)
  obtain v where v: "fst (probe_version e b (runas a) init_state) = Inr v"
    and l: "logged s = legacy_notes v a"
    and c: "cmd s = b # legacy_tokens v a @ common_tokens a @ [path a]"
    by auto
  have "flags_of (cmd s) = legacy_tokens v a @ common_tokens a"
    using flags_of_cmd [of b "legacy_tokens v a @ common_tokens a" "path a"] c by simp
  with v l show ?thesis by blast
qed

text \<open>
  C5. For the legacy backend, a successful call with \<^verbatim>\<open>distribute\<close> true emits no
  \<^verbatim>\<open>--distribute\<close> flag and logs the note in its place when the probed version is at
  least \<open>(1, 10)\<close> in the order of tuples, and emits \<^verbatim>\<open>--distribute\<close> otherwise; the same
  holds of \<^verbatim>\<open>never_download\<close> and \<^verbatim>\<open>--never-download\<close>. The flags are the tokens that
  \<^verbatim>\<open>create\<close> puts between the binary and the path.
\<close>

theorem C5_version_gate:
  assumes "assemble e a = (None, s)"
    and "check_or_die e (resolve_venv_bin e a) = Inr b"
    and "\<not> py_in ''pyvenv'' b"
    and "fst (probe_version e b (runas a) init_state) = Inr v"
  shows "(distribute a \<longrightarrow>
            (if tuple_ge v [1, 10]
             then ''--distribute'' \<notin> set (flags_of (cmd s)) \<and> distribute_note \<in> set (logged s)
             else ''--distribute'' \<in> set (flags_of (cmd s)) \<and> ''--distribute'' \<in> set (cmd s)))
       \<and> (never_download a = Some True \<longrightarrow>
            (if tuple_ge v [1, 10]
             then ''--never-download'' \<notin> set (flags_of (cmd s))
                  \<and> never_download_note \<in> set (logged s)
             else ''--never-download'' \<in> set (flags_of (cmd s))
                  \<and> ''--never-download'' \<in> set (cmd s)))"
proof -
  from legacy_success [OF assms(1-3)] assms(4)
  have f: "flags_of (cmd s) = legacy_tokens v a @ common_tokens a"
    and l: "logged s = legacy_notes v a"
    by auto
  have sub: "set (flags_of (cmd s)) \<subseteq> set (cmd s)"
    unfolding flags_of_def
    by (metis in_set_butlastD list.sel(2) list.set_sel(2) subsetI)
  have d: "''--distribute'' \<in> set (flags_of (cmd s)) \<longleftrightarrow> distribute a \<and> \<not> tuple_ge v [1, 10]"
    unfolding f by (rule distribute_in_tokens)
  have n: "''--never-download'' \<in> set (flags_of (cmd s))
             \<longleftrightarrow> never_download a = Some True \<and> \<not> tuple_ge v [1, 10]"
    unfolding f by (rule never_download_in_tokens)
  have ld: "distribute a \<and> tuple_ge v [1, 10] \<longrightarrow> distribute_note \<in> set (logged s)"
    by (simp add: l legacy_notes_def)
  have ln: "never_download a = Some True \<and> tuple_ge v [1, 10]
              \<longrightarrow> never_download_note \<in> set (logged s)"
    by (simp add: l legacy_notes_def)
  from d n ld ln sub show ?thesis by auto
qed

theorem C5_version_gate_witness:
  "fst (probe_version (env_module ''1.9'') ''virtualenv'' None init_state) = Inr [1, 9]
   \<and> fst (probe_version (env_module ''1.10'') ''virtualenv'' None init_state) = Inr [1, 10]
   \<and> fst (assemble (env_module ''1.9'') gated_flags) = None
   \<and> fst (assemble (env_module ''1.10'') gated_flags) = None
   \<and> ''--distribute'' \<in> set (cmd (snd (assemble (env_module ''1.9'') gated_flags)))
   \<and> ''--never-download'' \<in> set (cmd (snd (assemble (env_module ''1.9'') gated_flags)))
   \<and> ''--distribute'' \<notin> set (flags_of (cmd (snd (assemble (env_module ''1.10'') gated_flags))))
   \<and> ''--never-download'' \<notin> set (flags_of (cmd (snd (assemble (env_module ''1.10'') gated_flags))))
   \<and> distribute_note \<in> set (logged (snd (assemble (env_module ''1.10'') gated_flags)))"
proof -
  let ?lo = "env_module ''1.9''" and ?hi = "env_module ''1.10''"
  have p: "fst (probe_version ?lo ''virtualenv'' None init_state) = Inr [1, 9]"
    "fst (probe_version ?hi ''virtualenv'' None init_state) = Inr [1, 10]"
    by (simp_all add: model_defs input_defs)
  have r: "runas gated_flags = None" "distribute gated_flags"
    "never_download gated_flags = Some True"
    by (simp_all add: input_defs)
  have c: "check_or_die ?lo (resolve_venv_bin ?lo gated_flags) = Inr ''virtualenv''"
    "check_or_die ?hi (resolve_venv_bin ?hi gated_flags) = Inr ''virtualenv''"
    by (simp_all add: check_or_die_def resolve_venv_bin_def input_defs)
  have l: "\<not> py_in ''pyvenv'' ''virtualenv''" by simp
  have ok: "fst (assemble ?lo gated_flags) = None" "fst (assemble ?hi gated_flags) = None"
    by (simp_all add: model_defs input_defs)
  then have a: "assemble ?lo gated_flags = (None, snd (assemble ?lo gated_flags))"
    "assemble ?hi gated_flags = (None, snd (assemble ?hi gated_flags))"
    by (simp_all add: prod_eq_iff)
  have g: "\<not> tuple_ge [1, 9] [1, 10]" "tuple_ge [1, 10] [1, 10]" by simp_all
  from C5_version_gate [OF a(1) c(1) l, of "[1, 9]"]
       C5_version_gate [OF a(2) c(2) l, of "[1, 10]"] p r g ok
  show ?thesis by simp
qed

text \<open>
  C6 (amended). For the legacy backend, when \<^verbatim>\<open>extra_search_dir\<close> is given, a
  successful call emits one \<^verbatim>\<open>--extra-search-dir=<entry>\<close> flag per entry, in order, and
  no other flag with that prefix, where the entries are: for a string that contains a
  comma, its pieces between the commas, each stripped of surrounding whitespace; for a
  string without a comma, the string itself, unchanged; for a list, its elements.
\<close>

theorem C6_search_dirs:
  assumes "assemble e a = (None, s)"
    and "check_or_die e (resolve_venv_bin e a) = Inr b"
    and "\<not> py_in ''pyvenv'' b"
    and "extra_search_dir a = Some d"
  shows "filter (starts_with ''--extra-search-dir='') (flags_of (cmd s)) =
           map (\<lambda>entry. ''--extra-search-dir='' @ entry)
             (case d of
                Str x \<Rightarrow> if CHR '','' \<in> set x then map py_strip (split_char CHR '','' x) else [x]
              | Lst es \<Rightarrow> es)"
proof -
  from legacy_success [OF assms(1-3)]
  obtain v where "flags_of (cmd s) = legacy_tokens v a @ common_tokens a" by blast
  then have "filter (starts_with ''--extra-search-dir='') (flags_of (cmd s))
               = search_dir_tokens a"
    by (simp only: filter_search_dir_tokens)
  with assms(4) show ?thesis
    by (simp add: search_dir_tokens_def normalize_dirs_def)
qed

theorem C6_search_dirs_witness:
  "fst (assemble (env_module ''1.9'') (with_search_dir (Str ''a, b,c''))) = None
   \<and> filter (starts_with ''--extra-search-dir='')
        (flags_of (cmd (snd (assemble (env_module ''1.9'') (with_search_dir (Str ''a, b,c''))))))
       = [''--extra-search-dir=a'', ''--extra-search-dir=b'', ''--extra-search-dir=c'']"
proof -
  let ?e = "env_module ''1.9''" and ?a = "with_search_dir (Str ''a, b,c'')"
  have ok: "fst (assemble ?e ?a) = None"
    by (simp add: model_defs input_defs)
  then have h1: "assemble ?e ?a = (None, snd (assemble ?e ?a))"
    by (simp add: prod_eq_iff)
  have h2: "check_or_die ?e (resolve_venv_bin ?e ?a) = Inr ''virtualenv''"
    by (simp add: check_or_die_def resolve_venv_bin_def input_defs)
  have h3: "\<not> py_in ''pyvenv'' ''virtualenv''" by simp
  have h4: "extra_search_dir ?a = Some (Str ''a, b,c'')"
    by (simp add: input_defs)
  have n: "map py_strip (split_char CHR '','' ''a, b,c'') = [''a'', ''b'', ''c'']"
    by (simp add: py_strip_def is_space_def)
  from C6_search_dirs [OF h1 h2 h3 h4] n ok show ?thesis by simp
qed

text \<open>
  C6 as stated fails for a string without a comma: splitting \<^verbatim>\<open>" a"\<close> on commas and
  trimming each piece gives the entry \<^verbatim>\<open>a\<close>, while the flag that is emitted keeps the
  space.
\<close>

theorem C6_counterexample:
  "map (\<lambda>entry. ''--extra-search-dir='' @ entry) (map py_strip (split_char CHR '','' '' a''))
     = [''--extra-search-dir=a'']
   \<and> fst (assemble (env_module ''1.9'') (with_search_dir (Str '' a''))) = None
   \<and> cmd (snd (assemble (env_module ''1.9'') (with_search_dir (Str '' a''))))
       = [''virtualenv'', ''--extra-search-dir= a'', ''/tmp/env'']"
  by (simp add: model_defs input_defs)

text \<open>
  C7. Whenever \<^verbatim>\<open>create\<close> returns a result, the path is the last token of \<^verbatim>\<open>cmd\<close>, and
  \<^verbatim>\<open>cmd\<close> is the binary, then tokens that all begin with \<^verbatim>\<open>--\<close>, then the path, added
  once after them.
\<close>

theorem C7_path_last:
  assumes "fst (create e a) = Inr r"
  shows "last (cmd (snd (create e a))) = path a
       \<and> (\<exists>b ts. check_or_die e (resolve_venv_bin e a) = Inr b
                 \<and> cmd (snd (create e a)) = b # ts @ [path a]
                 \<and> (\<forall>t \<in> set ts. starts_with ''--'' t))"
proof -
  from create_Inr_assemble [OF assms]
  obtain s where s: "assemble e a = (None, s)" and c: "cmd (snd (create e a)) = cmd s"
    by blast
  from assemble_success [OF s]
  obtain b where b: "check_or_die e (resolve_venv_bin e a) = Inr b"
    and k0: "if py_in ''pyvenv'' b
             then cmd s = b # standard_tokens a @ common_tokens a @ [path a]
             else \<exists>v. fst (probe_version e b (runas a) init_state) = Inr v
                    \<and> upgrade a = None \<and> symlinks a = None
                    \<and> logged s = legacy_notes v a
                    \<and> cmd s = b # legacy_tokens v a @ common_tokens a @ [path a]"
    by blast
  then have k: "if py_in ''pyvenv'' b
            then cmd s = b # standard_tokens a @ common_tokens a @ [path a]
            else \<exists>v. cmd s = b # legacy_tokens v a @ common_tokens a @ [path a]"
    by (cases "py_in ''pyvenv'' b") auto
  have "\<exists>ts. cmd s = b # ts @ [path a] \<and> (\<forall>t \<in> set ts. starts_with ''--'' t)"
  proof (cases "py_in ''pyvenv'' b")
    case True
    with k have "cmd s = b # (standard_tokens a @ common_tokens a) @ [path a]" by simp
    with standard_flags_start_with_dashes show ?thesis by blast
  next
    case False
    with k obtain v where "cmd s = b # (legacy_tokens v a @ common_tokens a) @ [path a]"
      by auto
    with flags_start_with_dashes show ?thesis by blast
  qed
  then obtain ts where t: "cmd s = b # ts @ [path a]" "\<forall>t \<in> set ts. starts_with ''--'' t"
    by blast
  then have "last (cmd s) = path a" by simp
  with b c t show ?thesis by auto
qed

theorem C7_path_last_witness:
  "fst (create (env_module ''1.9'') all_legacy_flags)
     = Inr \<lparr>retcode = 0, stdout = [], stderr = []\<rparr>
   \<and> path all_legacy_flags = ''/tmp/env''
   \<and> last (cmd (snd (create (env_module ''1.9'') all_legacy_flags))) = ''/tmp/env''"
proof -
  have h: "fst (create (env_module ''1.9'') all_legacy_flags)
             = Inr \<lparr>retcode = 0, stdout = [], stderr = []\<rparr>"
    by (simp add: model_defs input_defs)
  have p: "path all_legacy_flags = ''/tmp/env''" by (simp add: input_defs)
  from C7_path_last [OF h] h p show ?thesis by simp
qed

text \<open>
  C8. After a call that raises nothing, \<^verbatim>\<open>cmd\<close> is: the binary; then, for the legacy
  backend, the tokens of \<^verbatim>\<open>--no-site-packages\<close>, \<^verbatim>\<open>--distribute\<close>, \<^verbatim>\<open>--python=\<close>,
  \<^verbatim>\<open>--extra-search-dir=\<close>, \<^verbatim>\<open>--never-download\<close>, \<^verbatim>\<open>--prompt=\<close> in this order, and
  for the standard backend those of \<^verbatim>\<open>--upgrade\<close>, \<^verbatim>\<open>--symlinks\<close>; then \<^verbatim>\<open>--clear\<close>
  and \<^verbatim>\<open>--system-site-packages\<close>, each exactly when its option is true; then the path.
\<close>

theorem C8_token_order:
  assumes "assemble e a = (None, s)"
  shows "\<exists>b. check_or_die e (resolve_venv_bin e a) = Inr b
           \<and> (if py_in ''pyvenv'' b
               then cmd s =
                      [b]
                      @ (if upgrade a = Some True then [''--upgrade''] else [])
                      @ (if symlinks a = Some True then [''--symlinks''] else [])
                      @ (if clear a then [''--clear''] else [])
                      @ (if system_site_packages a then [''--system-site-packages''] else [])
                      @ [path a]
               else \<exists>v. fst (probe_version e b (runas a) init_state) = Inr v
                      \<and> cmd s =
                          [b]
                          @ no_site_packages_tokens a @ distribute_tokens v a @ python_tokens a
                          @ search_dir_tokens a @ never_download_tokens v a @ prompt_tokens a
                          @ (if clear a then [''--clear''] else [])
                          @ (if system_site_packages a then [''--system-site-packages''] else [])
                          @ [path a])"
proof -
  from assemble_success [OF assms]
  obtain b where b: "check_or_die e (resolve_venv_bin e a) = Inr b"
    and k: "if py_in ''pyvenv'' b
            then cmd s = b # standard_tokens a @ common_tokens a @ [path a]
            else \<exists>v. fst (probe_version e b (runas a) init_state) = Inr v
                   \<and> upgrade a = None \<and> symlinks a = None
                   \<and> logged s = legacy_notes v a
                   \<and> cmd s = b # legacy_tokens v a @ common_tokens a @ [path a]"
    by blast
  show ?thesis
  proof (cases "py_in ''pyvenv'' b")
    case True
    with k have "cmd s = b # standard_tokens a @ common_tokens a @ [path a]" by simp
    with b True show ?thesis
      by (simp add: standard_tokens_def common_tokens_def)
  next
    case False
    with k obtain v where v: "fst (probe_version e b (runas a) init_state) = Inr v"
      and c: "cmd s = b # legacy_tokens v a @ common_tokens a @ [path a]"
      by auto
    have "cmd s =
            [b]
            @ no_site_packages_tokens a @ distribute_tokens v a @ python_tokens a
            @ search_dir_tokens a @ never_download_tokens v a @ prompt_tokens a
            @ (if clear a then [''--clear''] else [])
            @ (if system_site_packages a then [''--system-site-packages''] else [])
            @ [path a]"
      by (simp add: c legacy_tokens_def common_tokens_def)
    with b False v show ?thesis by auto
  qed
qed

theorem C8_token_order_witness:
  "fst (assemble (env_module ''1.9'') pyvenv_clear_system) = None
   \<and> cmd (snd (assemble (env_module ''1.9'') pyvenv_clear_system))
       = [''pyvenv'', ''--clear'', ''--system-site-packages'', ''/tmp/env'']
   \<and> fst (assemble (env_module ''1.9'') all_legacy_flags) = None
   \<and> cmd (snd (assemble (env_module ''1.9'') all_legacy_flags))
       = [''virtualenv'', ''--no-site-packages'', ''--distribute'', ''--python=python2.7'',
          ''--extra-search-dir=/opt/a'', ''--extra-search-dir=/opt/b'', ''--never-download'',
          ''--prompt=env'', ''--clear'', ''/tmp/env'']"
proof -
  let ?e = "env_module ''1.9''"
  have ok: "fst (assemble ?e pyvenv_clear_system) = None"
    "fst (assemble ?e all_legacy_flags) = None"
    by (simp_all add: model_defs input_defs)
  then have h: "assemble ?e pyvenv_clear_system = (None, snd (assemble ?e pyvenv_clear_system))"
    "assemble ?e all_legacy_flags = (None, snd (assemble ?e all_legacy_flags))"
    by (simp_all add: prod_eq_iff)
  have c: "check_or_die ?e (resolve_venv_bin ?e pyvenv_clear_system) = Inr ''pyvenv''"
    "check_or_die ?e (resolve_venv_bin ?e all_legacy_flags) = Inr ''virtualenv''"
    by (simp_all add: check_or_die_def resolve_venv_bin_def input_defs)
  have p: "fst (probe_version ?e ''virtualenv'' (runas all_legacy_flags) init_state) = Inr [1, 9]"
    by (simp add: model_defs input_defs)
  have 1: "cmd (snd (assemble ?e pyvenv_clear_system))
             = [''pyvenv'', ''--clear'', ''--system-site-packages'', ''/tmp/env'']"
    using C8_token_order [OF h(1)] c(1) by (auto simp add: input_defs)
  have 2: "cmd (snd (assemble ?e all_legacy_flags))
       = [''virtualenv'', ''--no-site-packages'', ''--distribute'', ''--python=python2.7'',
          ''--extra-search-dir=/opt/a'', ''--extra-search-dir=/opt/b'', ''--never-download'',
          ''--prompt=env'', ''--clear'', ''/tmp/env'']"
    using C8_token_order [OF h(2)] c(2) p
    by (auto simp add: input_defs no_site_packages_tokens_def distribute_tokens_def
        python_tokens_def search_dir_tokens_def never_download_tokens_def prompt_tokens_def
        normalize_dirs_def)
  from ok 1 2 show ?thesis by simp
qed

text \<open>
  C9 (amended). When nothing is raised before it, \<^verbatim>\<open>create\<close> returns the dictionary
  that \<^verbatim>\<open>cmd.run_all\<close> gives for the joined command, as it is and whatever its
  \<^verbatim>\<open>retcode\<close>. The version command of the legacy backend, run when the
  \<^verbatim>\<open>virtualenv\<close> module cannot be imported, is treated differently: a \<^verbatim>\<open>retcode\<close>
  greater than zero raises a \<^verbatim>\<open>CommandExecutionError\<close>. A \<^verbatim>\<open>retcode\<close> of zero or below
  raises nothing by itself: the output of the version command is parsed, a text that
  \<^verbatim>\<open>int\<close> refuses raises \<^verbatim>\<open>ValueError\<close>, and otherwise the creation command is run and
  its dictionary returned.
\<close>

theorem C9_exit_codes:
  "(assemble e a = (None, s)
      \<longrightarrow> fst (create e a) = Inr (run_all e (join_sp (cmd s)) (runas a))
          \<and> spawned (snd (create e a)) = spawned s @ [(join_sp (cmd s), runas a)])
   \<and> (check_or_die e (resolve_venv_bin e a) = Inr b
        \<and> \<not> (no_site_packages a = Some True \<and> system_site_packages a)
        \<and> \<not> py_in ''pyvenv'' b \<and> upgrade a = None \<and> symlinks a = None
        \<and> virtualenv_version e = None
        \<and> 0 < retcode (run_all e (b @ '' --version'') (runas a))
      \<longrightarrow> fst (create e a) =
            Inl (CommandExecutionError version_msg
                   [Repr_str (b @ '' --version''),
                    Repr_result (run_all e (b @ '' --version'') (runas a))]))
   \<and> (check_or_die e (resolve_venv_bin e a) = Inr b
        \<and> \<not> (no_site_packages a = Some True \<and> system_site_packages a)
        \<and> \<not> py_in ''pyvenv'' b \<and> upgrade a = None \<and> symlinks a = None
        \<and> virtualenv_version e = None
        \<and> retcode (run_all e (b @ '' --version'') (runas a)) \<le> 0
      \<longrightarrow> fst (create e a) =
            (case version_info (py_strip (stdout (run_all e (b @ '' --version'') (runas a)))) of
               Inl err \<Rightarrow> Inl err
             | Inr v \<Rightarrow>
                 Inr (run_all e (join_sp (b # legacy_tokens v a @ common_tokens a @ [path a]))
                        (runas a)))
          \<and> (\<forall>m args. fst (create e a) \<noteq> Inl (CommandExecutionError m args)))"
proof (intro conjI impI)
  assume "assemble e a = (None, s)"
  from create_success [OF this]
  show "fst (create e a) = Inr (run_all e (join_sp (cmd s)) (runas a))"
    and "spawned (snd (create e a)) = spawned s @ [(join_sp (cmd s), runas a)]"
    by simp_all
next
  assume h: "check_or_die e (resolve_venv_bin e a) = Inr b
        \<and> \<not> (no_site_packages a = Some True \<and> system_site_packages a)
        \<and> \<not> py_in ''pyvenv'' b \<and> upgrade a = None \<and> symlinks a = None
        \<and> virtualenv_version e = None
        \<and> 0 < retcode (run_all e (b @ '' --version'') (runas a))"
  then have "fst (create e a) =
     (case fst (probe_version e b (runas a) init_state) of
        Inl err \<Rightarrow> Inl err
      | Inr v \<Rightarrow>
          Inr (run_all e (join_sp (b # legacy_tokens v a @ common_tokens a @ [path a]))
                 (runas a)))"
    by (intro create_legacy_probe) simp_all
  with h show "fst (create e a) =
            Inl (CommandExecutionError version_msg
                   [Repr_str (b @ '' --version''),
                    Repr_result (run_all e (b @ '' --version'') (runas a))])"
    by (simp add: probe_version_def Let_def)
next
  assume h: "check_or_die e (resolve_venv_bin e a) = Inr b
        \<and> \<not> (no_site_packages a = Some True \<and> system_site_packages a)
        \<and> \<not> py_in ''pyvenv'' b \<and> upgrade a = None \<and> symlinks a = None
        \<and> virtualenv_version e = None
        \<and> retcode (run_all e (b @ '' --version'') (runas a)) \<le> 0"
  let ?parsed = "version_info (py_strip (stdout (run_all e (b @ '' --version'') (runas a))))"
  from h have "fst (create e a) =
     (case fst (probe_version e b (runas a) init_state) of
        Inl err \<Rightarrow> Inl err
      | Inr v \<Rightarrow>
          Inr (run_all e (join_sp (b # legacy_tokens v a @ common_tokens a @ [path a]))
                 (runas a)))"
    by (intro create_legacy_probe) simp_all
  moreover from h have "fst (probe_version e b (runas a) init_state) = ?parsed"
    by (simp add: probe_version_def Let_def)
  ultimately show r: "fst (create e a) =
            (case ?parsed of
               Inl err \<Rightarrow> Inl err
             | Inr v \<Rightarrow>
                 Inr (run_all e (join_sp (b # legacy_tokens v a @ common_tokens a @ [path a]))
                        (runas a)))"
    by simp
  show "\<forall>m args. fst (create e a) \<noteq> Inl (CommandExecutionError m args)"
  proof (cases ?parsed)
    case (Inl err)
    with version_info_error obtain lit where "err = ValueError lit" by blast
    with r Inl show ?thesis by simp
  next
    case (Inr v)
    with r show ?thesis by simp
  qed
qed

theorem C9_exit_codes_witness:
  "fst (assemble (env_console failed_probe) pyvenv_clear_system) = None
   \<and> retcode failed_probe \<noteq> 0
   \<and> fst (create (env_console failed_probe) pyvenv_clear_system) = Inr failed_probe
   \<and> fst (create (env_console failed_probe) (defaults ''/tmp/env'' None))
       = Inl (CommandExecutionError version_msg
                [Repr_str ''virtualenv --version'', Repr_result failed_probe])
   \<and> retcode killed_probe \<le> 0
   \<and> version_info (py_strip (stdout killed_probe)) = Inr [1, 9]
   \<and> fst (create (env_console killed_probe) (defaults ''/tmp/env'' None)) = Inr killed_probe
   \<and> retcode silent_probe \<le> 0
   \<and> fst (create (env_console silent_probe) (defaults ''/tmp/env'' None))
       = Inl (ValueError [])"
proof -
  let ?e = "env_console failed_probe" and ?a = "defaults ''/tmp/env'' None"
  let ?k = "env_console killed_probe" and ?q = "env_console silent_probe"
  have ok: "fst (assemble ?e pyvenv_clear_system) = None"
    by (simp add: model_defs input_defs)
  then have h: "assemble ?e pyvenv_clear_system = (None, snd (assemble ?e pyvenv_clear_system))"
    by (simp add: prod_eq_iff)
  have r: "retcode failed_probe \<noteq> 0" "retcode killed_probe \<le> 0" "retcode silent_probe \<le> 0"
    by (simp_all add: result_defs)
  have q: "run_all (env_console ret) c u = ret" for ret c u
    by (simp add: input_defs)
  have g: "check_or_die (env_console ret) (resolve_venv_bin (env_console ret) ?a)
             = Inr ''virtualenv''
        \<and> \<not> (no_site_packages ?a = Some True \<and> system_site_packages ?a)
        \<and> \<not> py_in ''pyvenv'' ''virtualenv'' \<and> upgrade ?a = None \<and> symlinks ?a = None
        \<and> virtualenv_version (env_console ret) = None" for ret
    by (simp add: check_or_die_def resolve_venv_bin_def input_defs)
  have p: "version_info (py_strip (stdout killed_probe)) = Inr [1, 9]"
    "version_info (py_strip (stdout silent_probe)) = Inl (ValueError [])"
    by (simp_all add: model_defs result_defs)
  from C9_exit_codes [of ?e pyvenv_clear_system "snd (assemble ?e pyvenv_clear_system)"]
       h q [of failed_probe]
  have 1: "fst (create ?e pyvenv_clear_system) = Inr failed_probe" by simp
  from C9_exit_codes [of ?e ?a _ "''virtualenv''"] g [of failed_probe] q [of failed_probe]
  have 2: "fst (create ?e ?a)
       = Inl (CommandExecutionError version_msg
                [Repr_str ''virtualenv --version'', Repr_result failed_probe])"
    by (simp add: result_defs)
  from C9_exit_codes [of ?k ?a _ "''virtualenv''"] g [of killed_probe] q [of killed_probe]
       r(2) p(1)
  have 3: "fst (create ?k ?a) = Inr killed_probe" by simp
  from C9_exit_codes [of ?q ?a _ "''virtualenv''"] g [of silent_probe] q [of silent_probe]
       r(3) p(2)
  have 4: "fst (create ?q ?a) = Inl (ValueError [])" by simp
  from ok r p(1) 1 2 3 4 show ?thesis by simp
qed

text \<open>
  C9 as stated fails for a \<^verbatim>\<open>retcode\<close> below zero, which \<^verbatim>\<open>cmd.run_all\<close> reports for
  a command ended by a signal: line 130 tests \<^verbatim>\<open>> 0\<close>, so the version command's failure
  is passed over, its output is parsed and the environment is created.
\<close>

theorem C9_counterexample:
  "retcode (run_all (env_console killed_probe) ''virtualenv --version'' None) \<noteq> 0
   \<and> create (env_console killed_probe) (defaults ''/tmp/env'' None)
       = (Inr killed_probe,
          \<lparr>cmd = [''virtualenv'', ''/tmp/env''], warned = [], logged = [],
           spawned = [(''virtualenv --version'', None), (''virtualenv /tmp/env'', None)]\<rparr>)"
  by (simp add: model_defs input_defs result_defs)

text \<open>
  C10. For the legacy backend, an \<^verbatim>\<open>extra_search_dir\<close> that is a string without a comma
  is the single entry as it is, whitespace included; only a string with a comma is split
  and its pieces stripped. So \<^verbatim>\<open>" a "\<close> gives the flag \<^verbatim>\<open>--extra-search-dir= a \<close>.
\<close>

theorem C10_single_dir_verbatim:
  assumes "assemble e a = (None, s)"
    and "check_or_die e (resolve_venv_bin e a) = Inr b"
    and "\<not> py_in ''pyvenv'' b"
    and "extra_search_dir a = Some (Str x)"
  shows "(CHR '','' \<notin> set x \<longrightarrow>
            filter (starts_with ''--extra-search-dir='') (flags_of (cmd s))
              = [''--extra-search-dir='' @ x])
       \<and> (CHR '','' \<in> set x \<longrightarrow>
            filter (starts_with ''--extra-search-dir='') (flags_of (cmd s))
              = map (\<lambda>piece. ''--extra-search-dir='' @ py_strip piece) (split_char CHR '','' x))"
proof -
  from legacy_success [OF assms(1-3)]
  obtain v where "flags_of (cmd s) = legacy_tokens v a @ common_tokens a" by blast
  then have "filter (starts_with ''--extra-search-dir='') (flags_of (cmd s))
               = search_dir_tokens a"
    by (simp only: filter_search_dir_tokens)
  with assms(4) show ?thesis
    by (simp add: search_dir_tokens_def normalize_dirs_def comp_def)
qed

theorem C10_single_dir_verbatim_witness:
  "fst (assemble (env_module ''1.9'') (with_search_dir (Str '' a ''))) = None
   \<and> CHR '','' \<notin> set '' a ''
   \<and> py_strip '' a '' = ''a''
   \<and> filter (starts_with ''--extra-search-dir='')
        (flags_of (cmd (snd (assemble (env_module ''1.9'') (with_search_dir (Str '' a ''))))))
       = [''--extra-search-dir= a '']"
proof -
  let ?e = "env_module ''1.9''" and ?a = "with_search_dir (Str '' a '')"
  have ok: "fst (assemble ?e ?a) = None"
    by (simp add: model_defs input_defs)
  then have h1: "assemble ?e ?a = (None, snd (assemble ?e ?a))"
    by (simp add: prod_eq_iff)
  have h2: "check_or_die ?e (resolve_venv_bin ?e ?a) = Inr ''virtualenv''"
    by (simp add: check_or_die_def resolve_venv_bin_def input_defs)
  have h3: "\<not> py_in ''pyvenv'' ''virtualenv''" by simp
  have h4: "extra_search_dir ?a = Some (Str '' a '')"
    by (simp add: input_defs)
  have n: "CHR '','' \<notin> set '' a ''" "py_strip '' a '' = ''a''"
    by (simp_all add: py_strip_def is_space_def)
  from C10_single_dir_verbatim [OF h1 h2 h3 h4] n ok show ?thesis by simp
qed

end
